theory Spec2Isabelle
  imports Main "HOL-Library.Sublist"
begin

section \<open>The starter-pack order service\<close>

text \<open>
  A shallow embedding of \<^verbatim>\<open>StarterPackService\<close> (the order service of the
  repository) and of the places of the admin panel that restrict its use: the status
  buttons and the proof-of-delivery section.

  Instants (the ISO strings of the rows and the \<^verbatim>\<open>Date\<close> objects made from them) are
  represented by their epoch value in milliseconds, the number \<^verbatim>\<open>Date.getTime()\<close>
  returns. The system clock (\<^verbatim>\<open>new Date()\<close>) is an explicit argument \<open>now\<close> of every
  function that reads it; it is not one of the source's parameters. A \<^verbatim>\<open>Date\<close>
  object that may be invalid is a \<open>js_date\<close>.
\<close>

subsection \<open>Data model\<close>

type_synonym instant = int

datatype order_status =
  Pending | Received | Preparing | Configuring | OutForDelivery | Delivered

datatype payment_status = PaymentPending | PaymentCompleted | PaymentFailed

text \<open>The string literal each member of the union type \<^verbatim>\<open>order_status\<close> stands for.\<close>

fun status_value :: "order_status \<Rightarrow> string" where
  "status_value Pending = ''pending''"
| "status_value Received = ''received''"
| "status_value Preparing = ''preparing''"
| "status_value Configuring = ''configuring''"
| "status_value OutForDelivery = ''out_for_delivery''"
| "status_value Delivered = ''delivered''"

record DeliveryAddress =
  addressLine1 :: string
  addressLine2 :: string
  city :: string
  emirate :: string
  contactNumber :: string

text \<open>
  The row type \<^verbatim>\<open>StarterPackOrder\<close>. Optional fields are options. The field
  \<^verbatim>\<open>id\<close> is named \<open>order_id\<close>.

  The audit column \<^verbatim>\<open>status_timestamps\<close> is declared a
  \<^verbatim>\<open>Record<string, string>\<close>, an object from stage names to instants
  (\<open>JsonObject\<close>). What \<open>createOrder\<close> writes into it is the result of
  \<^verbatim>\<open>JSON.stringify\<close>, a string: \<open>JsonText entries\<close> stands for the JSON text of
  the object with these entries.
\<close>

datatype timestamps_value =
  JsonText "(string \<times> instant) list"
| JsonObject "string \<rightharpoonup> instant"

record StarterPackOrder =
  order_id :: string
  user_id :: string
  restaurant_id :: "string option"
  order_status :: order_status
  includes_tablet :: bool
  tablet_cost :: int
  total_cost :: int
  payment_status :: payment_status
  stripe_payment_intent_id :: "string option"
  estimated_delivery :: "instant option"
  delivered_at :: "instant option"
  delivery_address_line1 :: "string option"
  delivery_address_line2 :: "string option"
  delivery_city :: "string option"
  delivery_emirate :: "string option"
  delivery_contact_number :: "string option"
  proof_of_delivery_url :: "string option"
  status_timestamps :: "timestamps_value option"
  created_at :: instant
  updated_at :: instant

text \<open>
  \<^verbatim>\<open>order.status_timestamps?.[stage]\<close>, as both panels and the tracker read the
  column for a stage name: the entry of an object, and nothing for a missing column or
  for a string, which has no property named after a stage.
\<close>

fun readTimestamp :: "timestamps_value option \<Rightarrow> order_status \<Rightarrow> instant option" where
  "readTimestamp None stage = None"
| "readTimestamp (Some (JsonObject entries)) stage = entries (status_value stage)"
| "readTimestamp (Some (JsonText entries)) stage = None"

text \<open>
  The failures of the specification's taxonomy, and the one failure the service can
  produce: the error reported by the store, which every method rethrows.
\<close>

datatype failure =
  InvalidTransition | AlreadySettled | InvalidState | StaleRead | StoreError string

subsection \<open>The store\<close>

text \<open>
  The table \<^verbatim>\<open>starter_pack_orders\<close>, keyed by the row identifier. The store's
  answer to a request is its \<^verbatim>\<open>error\<close> field: \<open>None\<close> when the request went
  through.
\<close>

type_synonym orders_table = "string \<rightharpoonup> StarterPackOrder"

type_synonym store_reply = "string option"

text \<open>
  The object passed to \<^verbatim>\<open>.update(...)\<close>: only the columns that are present are
  written.
\<close>

record update_data =
  set_order_status :: "order_status option"
  set_payment_status :: "payment_status option"
  set_stripe_payment_intent_id :: "string option"
  set_delivered_at :: "instant option"
  set_proof_of_delivery_url :: "string option"

definition no_columns :: update_data where
  "no_columns = \<lparr>set_order_status = None, set_payment_status = None,
     set_stripe_payment_intent_id = None, set_delivered_at = None,
     set_proof_of_delivery_url = None\<rparr>"

definition write_columns :: "update_data \<Rightarrow> StarterPackOrder \<Rightarrow> StarterPackOrder" where
  "write_columns u row =
     row\<lparr>order_status := (case set_order_status u of None \<Rightarrow> order_status row | Some s \<Rightarrow> s),
         payment_status :=
           (case set_payment_status u of None \<Rightarrow> payment_status row | Some p \<Rightarrow> p),
         stripe_payment_intent_id :=
           (case set_stripe_payment_intent_id u of
              None \<Rightarrow> stripe_payment_intent_id row | Some r \<Rightarrow> Some r),
         delivered_at :=
           (case set_delivered_at u of None \<Rightarrow> delivered_at row | Some t \<Rightarrow> Some t),
         proof_of_delivery_url :=
           (case set_proof_of_delivery_url u of
              None \<Rightarrow> proof_of_delivery_url row | Some p \<Rightarrow> Some p)\<rparr>"

text \<open>
  \<^verbatim>\<open>supabase.from('starter_pack_orders').update(u).eq('id', orderId)\<close>, followed by
  \<^verbatim>\<open>if (error) throw error\<close>. A filter that matches no row updates nothing and is
  no error.
\<close>

definition db_update ::
  "store_reply \<Rightarrow> update_data \<Rightarrow> string \<Rightarrow> orders_table \<Rightarrow> failure + orders_table" where
  "db_update reply u orderId tbl =
     (case reply of
        Some e \<Rightarrow> Inl (StoreError e)
      | None \<Rightarrow>
          (case tbl orderId of
             None \<Rightarrow> Inr tbl
           | Some row \<Rightarrow> Inr (tbl(orderId \<mapsto> write_columns u row))))"

subsection \<open>The service\<close>

definition STARTER_PACK_BASE_COST :: int where
  "STARTER_PACK_BASE_COST = 0"

definition TABLET_COST :: int where
  "TABLET_COST = 499"


text \<open>
  \<^verbatim>\<open>createOrder\<close>. The inserted row is the payload of the source laid over
  \<open>fresh\<close>, the row the store makes of the columns the payload leaves out: the generated
  identifier, \<^verbatim>\<open>created_at\<close> and \<^verbatim>\<open>updated_at\<close>, and the column defaults of
  the schema, which is not part of the sources. \<^verbatim>\<open>restaurantId || null\<close> maps a
  missing and an empty identifier to null.
\<close>

definition createOrder ::
  "store_reply \<Rightarrow> StarterPackOrder \<Rightarrow> instant \<Rightarrow> string \<Rightarrow> bool \<Rightarrow> DeliveryAddress \<Rightarrow>
   string option \<Rightarrow> orders_table \<Rightarrow> failure + (StarterPackOrder \<times> orders_table)" where
  "createOrder reply fresh now userId includesTablet deliveryAddress restaurantId tbl =
     (let tabletCost = (if includesTablet then TABLET_COST else 0);
          totalCost = STARTER_PACK_BASE_COST + tabletCost;
          data = fresh\<lparr>
            user_id := userId,
            restaurant_id :=
              (case restaurantId of None \<Rightarrow> None
               | Some r \<Rightarrow> if r = [] then None else Some r),
            includes_tablet := includesTablet,
            tablet_cost := tabletCost,
            total_cost := totalCost,
            order_status := Received,
            payment_status := PaymentCompleted,
            delivery_address_line1 := Some (addressLine1 deliveryAddress),
            delivery_address_line2 := Some (addressLine2 deliveryAddress),
            delivery_city := Some (city deliveryAddress),
            delivery_emirate := Some (emirate deliveryAddress),
            delivery_contact_number := Some (contactNumber deliveryAddress),
            status_timestamps := Some (JsonText [(''received'', now)])\<rparr>
      in case reply of
           Some e \<Rightarrow> Inl (StoreError e)
         | None \<Rightarrow> Inr (data, tbl(order_id data \<mapsto> data)))"

text \<open>
  The outcome handed to \<^verbatim>\<open>updateOrderPaymentStatus\<close> has the type
  \<^verbatim>\<open>'completed' | 'failed'\<close>.
\<close>

datatype settlement_outcome = OutcomeCompleted | OutcomeFailed

fun outcome_status :: "settlement_outcome \<Rightarrow> payment_status" where
  "outcome_status OutcomeCompleted = PaymentCompleted"
| "outcome_status OutcomeFailed = PaymentFailed"

definition updateOrderPaymentStatus ::
  "store_reply \<Rightarrow> string \<Rightarrow> string \<Rightarrow> settlement_outcome \<Rightarrow> orders_table \<Rightarrow>
   failure + orders_table" where
  "updateOrderPaymentStatus reply orderId paymentIntentId status tbl =
     (let updateData = no_columns\<lparr>
            set_payment_status := Some (outcome_status status),
            set_stripe_payment_intent_id := Some paymentIntentId\<rparr>;
          updateData =
            (if status = OutcomeCompleted
             then updateData\<lparr>set_order_status := Some Received\<rparr> else updateData)
      in db_update reply updateData orderId tbl)"

definition updateOrderStatus ::
  "store_reply \<Rightarrow> instant \<Rightarrow> string \<Rightarrow> order_status \<Rightarrow> orders_table \<Rightarrow>
   failure + orders_table" where
  "updateOrderStatus reply now orderId status tbl =
     (let updateData = no_columns\<lparr>set_order_status := Some status\<rparr>;
          updateData =
            (if status = Delivered
             then updateData\<lparr>set_delivered_at := Some now\<rparr> else updateData)
      in db_update reply updateData orderId tbl)"

definition updateProofOfDelivery ::
  "store_reply \<Rightarrow> string \<Rightarrow> string \<Rightarrow> orders_table \<Rightarrow> failure + orders_table" where
  "updateProofOfDelivery reply orderId proofUrl tbl =
     db_update reply (no_columns\<lparr>set_proof_of_delivery_url := Some proofUrl\<rparr>) orderId tbl"

text \<open>\<^verbatim>\<open>Array.prototype.indexOf\<close>: the first position of an element, or -1.\<close>

fun indexOf :: "'a list \<Rightarrow> 'a \<Rightarrow> int" where
  "indexOf [] x = - 1"
| "indexOf (y # ys) x =
     (if y = x then 0 else (let i = indexOf ys x in if i < 0 then - 1 else i + 1))"

definition statuses :: "string list" where
  "statuses = [''pending'', ''received'', ''preparing'', ''configuring'',
     ''out_for_delivery'', ''delivered'']"

definition getStatusIndex :: "string \<Rightarrow> int" where
  "getStatusIndex status = indexOf statuses status"

text \<open>
  A \<^verbatim>\<open>Date\<close> object: its time value in milliseconds, or \<open>None\<close> for an Invalid
  Date, whose time value is NaN. \<^verbatim>\<open>new Date(t)\<close> of a number is valid only within
  8.64e15 ms of the epoch. The date a string parses to is taken as given.
\<close>

type_synonym js_date = "instant option"

definition newDate :: "int \<Rightarrow> js_date" where
  "newDate t =
     (if - 8640000000000000 \<le> t \<and> t \<le> 8640000000000000 then Some t else None)"

text \<open>
  \<^verbatim>\<open>calculateEstimatedDelivery\<close>; \<open>orderTime\<close> is \<^verbatim>\<open>new Date(orderDate)\<close>.
  The sum of a NaN time value is NaN. The sums of valid time values stay below 2^53, so
  the addition is exact.
\<close>

definition calculateEstimatedDelivery :: "js_date \<Rightarrow> js_date" where
  "calculateEstimatedDelivery orderTime =
     (case orderTime of
        None \<Rightarrow> None
      | Some t \<Rightarrow> newDate (t + 9 * 60 * 60 * 1000))"

text \<open>
  \<^verbatim>\<open>isDelayed(orderDate, currentStatus, estimatedDelivery)\<close>. The first argument of
  the model, \<open>clock\<close>, is what \<^verbatim>\<open>new Date()\<close> returns inside the method; the other
  three are the method's parameters, \<open>eta\<close> being \<^verbatim>\<open>new Date(estimatedDelivery)\<close>.
  A comparison with an Invalid Date is false.
\<close>

definition isDelayed :: "instant \<Rightarrow> string \<Rightarrow> string \<Rightarrow> js_date \<Rightarrow> bool" where
  "isDelayed clock orderDate currentStatus eta =
     (if currentStatus = ''delivered'' \<or> currentStatus = ''out_for_delivery'' then False
      else (case eta of None \<Rightarrow> False | Some e \<Rightarrow> clock > e))"

text \<open>The decimal numeral a template literal prints for an integer.\<close>

fun decimal :: "nat \<Rightarrow> string" where
  "decimal n =
     (if n < 10 then [''0123456789'' ! n]
      else decimal (n div 10) @ [''0123456789'' ! (n mod 10)])"

declare decimal.simps [simp del]

definition number_text :: "int \<Rightarrow> string" where
  "number_text i = (if i < 0 then CHR ''-'' # decimal (nat (- i)) else decimal (nat i))"

text \<open>
  \<^verbatim>\<open>getDelayMessage\<close>. Both times are whole milliseconds, so
  \<^verbatim>\<open>Math.floor\<close> of their difference over 3600000 is the integer quotient
  \<open>div\<close>, which rounds towards minus infinity as \<^verbatim>\<open>Math.floor\<close> does.
\<close>

definition getDelayMessage :: "instant \<Rightarrow> instant \<Rightarrow> string" where
  "getDelayMessage now estimatedDelivery =
     (let delayHours = (now - estimatedDelivery) div (1000 * 60 * 60)
      in if delayHours < 1
         then ''Your order is slightly delayed. We apologize for the inconvenience.''
         else if delayHours < 3
         then ''Your order is delayed by approximately '' @ number_text delayHours @
              '' hour'' @ (if delayHours > 1 then ''s'' else '''') @
              ''. Our team is working to get it to you as soon as possible.''
         else ''We sincerely apologize for the delay. Your order is taking longer than expected. Please contact support for more information.'')"

subsection \<open>The user interface\<close>

text \<open>
  The \<^verbatim>\<open>disabled\<close> attribute of a status button of the admin panel
  (\<^verbatim>\<open>StarterPackOrdersAdmin\<close>), for the selected order's stage and the button's stage.
\<close>

definition statusButtonDisabled :: "bool \<Rightarrow> string \<Rightarrow> string \<Rightarrow> bool" where
  "statusButtonDisabled updating selected_status button_value =
     (let currentIndex = getStatusIndex selected_status;
          statusIndex = getStatusIndex button_value;
          isCompleted = (statusIndex < currentIndex);
          isCurrent = (button_value = selected_status);
          isNext = (statusIndex = currentIndex + 1);
          canUpdate = (isNext \<or> isCurrent)
      in updating \<or> (\<not> canUpdate \<and> \<not> isCompleted))"

text \<open>
  The proof-of-delivery section of the admin panel is rendered under
  \<^verbatim>\<open>selectedOrder.order_status === 'delivered' && ...\<close>.
\<close>

definition proofSectionShown :: "StarterPackOrder \<Rightarrow> bool" where
  "proofSectionShown selectedOrder = (order_status selectedOrder = Delivered)"

text \<open>
  The stages the admin panel renders a status button for: its \<^verbatim>\<open>statuses\<close> array
  has five entries and none for \<open>pending\<close>.
\<close>

definition panel_statuses :: "order_status list" where
  "panel_statuses = [Received, Preparing, Configuring, OutForDelivery, Delivered]"

text \<open>
  A click on the status button of a stage. \<open>selectedOrder\<close> is the panel's snapshot of
  the order, from which the button's \<^verbatim>\<open>disabled\<close> attribute is computed; it need
  not agree with the stored row. A stage without a button cannot be clicked and a
  disabled button does nothing. An enabled one runs
  \<^verbatim>\<open>handleStatusUpdate(selectedOrder.id, status.value)\<close>, whose effect on the store
  is that of \<^verbatim>\<open>updateOrderStatus(orderId, newStatus)\<close>.
\<close>

definition clickStatusButton ::
  "store_reply \<Rightarrow> instant \<Rightarrow> bool \<Rightarrow> StarterPackOrder \<Rightarrow> order_status \<Rightarrow> orders_table \<Rightarrow>
   failure + orders_table" where
  "clickStatusButton reply now updating selectedOrder status tbl =
     (if status \<notin> set panel_statuses then Inr tbl
      else if statusButtonDisabled updating (status_value (order_status selectedOrder))
                (status_value status)
      then Inr tbl
      else updateOrderStatus reply now (order_id selectedOrder) status tbl)"

subsection \<open>Sequences of service calls\<close>

text \<open>
  The three methods that write to an existing row, each with the store's reply to it
  (and, for the stage update, the clock it reads). A sequence of calls is run until
  the first one throws.
\<close>

datatype service_call =
  CallUpdateOrderPaymentStatus store_reply string string settlement_outcome
| CallUpdateOrderStatus store_reply instant string order_status
| CallUpdateProofOfDelivery store_reply string string

fun perform :: "service_call \<Rightarrow> orders_table \<Rightarrow> failure + orders_table" where
  "perform (CallUpdateOrderPaymentStatus reply orderId paymentIntentId status) tbl =
     updateOrderPaymentStatus reply orderId paymentIntentId status tbl"
| "perform (CallUpdateOrderStatus reply now orderId status) tbl =
     updateOrderStatus reply now orderId status tbl"
| "perform (CallUpdateProofOfDelivery reply orderId proofUrl) tbl =
     updateProofOfDelivery reply orderId proofUrl tbl"

fun perform_all :: "service_call list \<Rightarrow> orders_table \<Rightarrow> failure + orders_table" where
  "perform_all [] tbl = Inr tbl"
| "perform_all (c # cs) tbl =
     (case perform c tbl of Inl e \<Rightarrow> Inl e | Inr tbl' \<Rightarrow> perform_all cs tbl')"

subsection \<open>The store's part of a new row\<close>

text \<open>
  Modelled from the spec: the schema of \<^verbatim>\<open>starter_pack_orders\<close>, which is not
  among the sources, and with it what the store puts into the columns an insert leaves
  out. The store generates the identifier and the creation instant, and the estimated
  delivery is stored as the creation instant plus the fixed service window of nine
  hours ("\<^verbatim>\<open>estimateDelivery(createdAt)\<close> == \<^verbatim>\<open>createdAt + 9h\<close>, exactly", "computed
  once ... and stored"). The other optional columns are null; the state columns, which
  every insert of the service overwrites, start at \<open>pending\<close>.
\<close>

definition store_new_row :: "string \<Rightarrow> instant \<Rightarrow> StarterPackOrder" where
  "store_new_row newId createdAt = \<lparr>order_id = newId, user_id = [], restaurant_id = None,
     order_status = Pending, includes_tablet = False, tablet_cost = 0, total_cost = 0,
     payment_status = PaymentPending, stripe_payment_intent_id = None,
     estimated_delivery = Some (createdAt + 9 * (60 * 60 * 1000)), delivered_at = None,
     delivery_address_line1 = None, delivery_address_line2 = None,
     delivery_city = None, delivery_emirate = None, delivery_contact_number = None,
     proof_of_delivery_url = None, status_timestamps = None,
     created_at = createdAt, updated_at = createdAt\<rparr>"

subsection \<open>Concrete inputs\<close>

text \<open>
  An order placed without the tablet at 2024-01-01T00:00:00Z (1704067200000 ms):
  \<open>example_order\<close> is the row \<open>createOrder\<close> inserts for it (lemma
  \<open>createOrder_example\<close>).
\<close>

definition example_address :: DeliveryAddress where
  "example_address = \<lparr>addressLine1 = ''12 Marina Walk'', addressLine2 = ''Flat 3'',
     city = ''Dubai'', emirate = ''Dubai'', contactNumber = ''0500000000''\<rparr>"

definition example_order :: StarterPackOrder where
  "example_order = \<lparr>order_id = ''o1'', user_id = ''u1'', restaurant_id = None,
     order_status = Received, includes_tablet = False, tablet_cost = 0, total_cost = 0,
     payment_status = PaymentCompleted, stripe_payment_intent_id = None,
     estimated_delivery = Some 1704099600000, delivered_at = None,
     delivery_address_line1 = Some ''12 Marina Walk'',
     delivery_address_line2 = Some ''Flat 3'',
     delivery_city = Some ''Dubai'', delivery_emirate = Some ''Dubai'',
     delivery_contact_number = Some ''0500000000'',
     proof_of_delivery_url = None,
     status_timestamps = Some (JsonText [(''received'', 1704067200000)]),
     created_at = 1704067200000, updated_at = 1704067200000\<rparr>"

section \<open>Properties\<close>

subsection \<open>Auxiliary facts\<close>

lemma createOrder_example:
  "createOrder None (store_new_row ''o1'' 1704067200000) 1704067200000 ''u1'' False
     example_address None Map.empty
     = Inr (example_order, [''o1'' \<mapsto> example_order])"
  by (simp add: createOrder_def store_new_row_def example_order_def example_address_def
      TABLET_COST_def STARTER_PACK_BASE_COST_def Let_def)

lemma getStatusIndex_status_value:
  "getStatusIndex (status_value s) =
     (case s of Pending \<Rightarrow> 0 | Received \<Rightarrow> 1 | Preparing \<Rightarrow> 2 | Configuring \<Rightarrow> 3
      | OutForDelivery \<Rightarrow> 4 | Delivered \<Rightarrow> 5)"
  by (cases s) (simp_all add: getStatusIndex_def statuses_def)

lemma status_value_inj: "status_value s = status_value t \<longleftrightarrow> s = t"
  by (cases s; cases t) simp_all

lemma db_update_failure: "db_update reply u orderId tbl = Inl e \<Longrightarrow> \<exists>msg. e = StoreError msg"
  by (auto simp: db_update_def split: option.splits)

lemma db_update_row:
  "tbl orderId = Some row \<Longrightarrow>
   db_update None u orderId tbl = Inr (tbl(orderId \<mapsto> write_columns u row))"
  by (simp add: db_update_def)

lemma db_update_result:
  assumes "db_update reply u orderId tbl = Inr tbl'" and "tbl k = Some row"
  shows "tbl' k = Some (if k = orderId then write_columns u row else row)"
  using assms by (auto simp: db_update_def split: option.splits)

lemma updateOrderStatus_row:
  "tbl orderId = Some row \<Longrightarrow>
   updateOrderStatus None now orderId status tbl =
     Inr (tbl(orderId \<mapsto> row\<lparr>order_status := status,
       delivered_at := (if status = Delivered then Some now else delivered_at row)\<rparr>))"
  by (simp add: updateOrderStatus_def Let_def db_update_row write_columns_def no_columns_def)

lemma updateOrderPaymentStatus_row:
  "tbl orderId = Some row \<Longrightarrow>
   updateOrderPaymentStatus None orderId paymentIntentId status tbl =
     Inr (tbl(orderId \<mapsto> row\<lparr>
       order_status := (if status = OutcomeCompleted then Received else order_status row),
       payment_status := outcome_status status,
       stripe_payment_intent_id := Some paymentIntentId\<rparr>))"
  by (simp add: updateOrderPaymentStatus_def Let_def db_update_row write_columns_def
      no_columns_def)

lemma updateProofOfDelivery_row:
  "tbl orderId = Some row \<Longrightarrow>
   updateProofOfDelivery None orderId proofUrl tbl =
     Inr (tbl(orderId \<mapsto> row\<lparr>proof_of_delivery_url := Some proofUrl\<rparr>))"
  by (simp add: updateProofOfDelivery_def db_update_row write_columns_def no_columns_def)

lemma perform_payload:
  "\<exists>reply u orderId. perform c tbl = db_update reply u orderId tbl \<and>
     (set_order_status u = Some Delivered \<longrightarrow> set_delivered_at u \<noteq> None)"
proof (cases c)
  case (CallUpdateOrderPaymentStatus reply orderId ref outcome)
  then show ?thesis
    by (auto simp: updateOrderPaymentStatus_def Let_def no_columns_def intro!: exI)
next
  case (CallUpdateOrderStatus reply now orderId status)
  then show ?thesis
    by (auto simp: updateOrderStatus_def Let_def no_columns_def intro!: exI)
next
  case (CallUpdateProofOfDelivery reply orderId url)
  then show ?thesis
    by (auto simp: updateProofOfDelivery_def no_columns_def intro!: exI)
qed

lemma perform_step:
  assumes "perform c tbl = Inr tbl'" and "tbl k = Some row"
  shows "\<exists>row'. tbl' k = Some row' \<and> status_timestamps row' = status_timestamps row \<and>
           (delivered_at row \<noteq> None \<longrightarrow> delivered_at row' \<noteq> None) \<and>
           ((order_status row = Delivered \<longrightarrow> delivered_at row \<noteq> None) \<longrightarrow>
            (order_status row' = Delivered \<longrightarrow> delivered_at row' \<noteq> None))"
proof -
  obtain reply u orderId where p: "perform c tbl = db_update reply u orderId tbl"
    and d: "set_order_status u = Some Delivered \<longrightarrow> set_delivered_at u \<noteq> None"
    using perform_payload by blast
  from assms p have "tbl' k = Some (if k = orderId then write_columns u row else row)"
    by (simp add: db_update_result)
  with d show ?thesis
    by (auto simp: write_columns_def split: option.splits)
qed

lemma perform_all_steps:
  assumes "perform_all calls tbl = Inr tbl'" and "tbl k = Some row"
  shows "\<exists>row'. tbl' k = Some row' \<and> status_timestamps row' = status_timestamps row \<and>
           (delivered_at row \<noteq> None \<longrightarrow> delivered_at row' \<noteq> None) \<and>
           ((order_status row = Delivered \<longrightarrow> delivered_at row \<noteq> None) \<longrightarrow>
            (order_status row' = Delivered \<longrightarrow> delivered_at row' \<noteq> None))"
  using assms
proof (induction calls arbitrary: tbl row)
  case Nil
  then show ?case by simp
next
  case (Cons c calls)
  from Cons.prems(1) obtain tbl1 where c: "perform c tbl = Inr tbl1"
    and rest: "perform_all calls tbl1 = Inr tbl'"
    by (auto split: sum.splits)
  from perform_step [OF c Cons.prems(2)] obtain row1 where r1: "tbl1 k = Some row1"
    and s1: "status_timestamps row1 = status_timestamps row"
    and d1: "delivered_at row \<noteq> None \<longrightarrow> delivered_at row1 \<noteq> None"
    and i1: "(order_status row = Delivered \<longrightarrow> delivered_at row \<noteq> None) \<longrightarrow>
            (order_status row1 = Delivered \<longrightarrow> delivered_at row1 \<noteq> None)"
    by blast
  from Cons.IH [OF rest r1] s1 d1 i1 show ?case
    by metis
qed

lemma createOrder_row:
  "createOrder None fresh now userId includesTablet deliveryAddress restaurantId tbl =
     Inr (row, tbl') \<Longrightarrow>
   tbl' (order_id row) = Some row \<and> order_status row = Received \<and>
   status_timestamps row = Some (JsonText [(''received'', now)])"
  by (auto simp: createOrder_def Let_def)

lemma number_text_small: "number_text 1 = ''1''" "number_text 2 = ''2''"
  by (simp_all add: number_text_def decimal.simps)

lemma hours_cases:
  fixes d :: int
  shows "d < 3600000 \<Longrightarrow> d div 3600000 < 1"
    and "3600000 \<le> d \<Longrightarrow> d < 7200000 \<Longrightarrow> d div 3600000 = 1"
    and "7200000 \<le> d \<Longrightarrow> d < 10800000 \<Longrightarrow> d div 3600000 = 2"
    and "10800000 \<le> d \<Longrightarrow> 3 \<le> d div 3600000"
proof -
  have eq: "d = 3600000 * (d div 3600000) + d mod 3600000"
    by simp
  have lo: "0 \<le> d mod 3600000" and hi: "d mod 3600000 < 3600000"
    by simp_all
  show "d < 3600000 \<Longrightarrow> d div 3600000 < 1"
    using eq lo hi by linarith
  show "3600000 \<le> d \<Longrightarrow> d < 7200000 \<Longrightarrow> d div 3600000 = 1"
    using eq lo hi by linarith
  show "7200000 \<le> d \<Longrightarrow> d < 10800000 \<Longrightarrow> d div 3600000 = 2"
    using eq lo hi by linarith
  show "10800000 \<le> d \<Longrightarrow> 3 \<le> d div 3600000"
    using eq lo hi by linarith
qed

lemma getDelayMessage_tiers:
  "getDelayMessage now eta =
   (if now - eta < 3600000
    then ''Your order is slightly delayed. We apologize for the inconvenience.''
    else if now - eta < 7200000
    then ''Your order is delayed by approximately 1 hour. Our team is working to get it to you as soon as possible.''
    else if now - eta < 10800000
    then ''Your order is delayed by approximately 2 hours. Our team is working to get it to you as soon as possible.''
    else ''We sincerely apologize for the delay. Your order is taking longer than expected. Please contact support for more information.'')"
proof -
  define d where "d = now - eta"
  consider (mild) "d < 3600000" | (one) "3600000 \<le> d" "d < 7200000"
    | (two) "7200000 \<le> d" "d < 10800000" | (escalated) "10800000 \<le> d"
    by linarith
  then have "getDelayMessage now eta =
   (if d < 3600000
    then ''Your order is slightly delayed. We apologize for the inconvenience.''
    else if d < 7200000
    then ''Your order is delayed by approximately 1 hour. Our team is working to get it to you as soon as possible.''
    else if d < 10800000
    then ''Your order is delayed by approximately 2 hours. Our team is working to get it to you as soon as possible.''
    else ''We sincerely apologize for the delay. Your order is taking longer than expected. Please contact support for more information.'')"
  proof cases
    case mild
    from hours_cases(1) [OF mild] mild show ?thesis
      by (simp add: getDelayMessage_def d_def [symmetric])
  next
    case one
    from hours_cases(2) [OF one] one show ?thesis
      by (simp add: getDelayMessage_def d_def [symmetric] number_text_small)
  next
    case two
    from hours_cases(3) [OF two] two show ?thesis
      by (simp add: getDelayMessage_def d_def [symmetric] number_text_small)
  next
    case escalated
    from hours_cases(4) [OF escalated] escalated show ?thesis
      by (simp add: getDelayMessage_def d_def [symmetric])
  qed
  then show ?thesis by (simp only: d_def)
qed

subsection \<open>Delay detection and delivery estimate\<close>

text \<open>
  C7, as the code has it. \<open>isDelayed\<close> is false once the fulfillment state is
  \<open>out_for_delivery\<close> or \<open>delivered\<close>, whatever the clock reads; in every other state
  it is true exactly when the estimate is a valid date and the clock is past it. The
  clock is read inside the method: the result is a function of the clock reading, the
  state and the estimate (the order date is ignored), not of the method's three
  arguments alone.
\<close>

theorem isDelayed_spec:
  "isDelayed clock orderDate ''out_for_delivery'' eta = False \<and>
   isDelayed clock orderDate ''delivered'' eta = False \<and>
   isDelayed clock orderDate (status_value s) (Some estimatedDelivery) =
     (s \<noteq> OutForDelivery \<and> s \<noteq> Delivered \<and> clock > estimatedDelivery) \<and>
   isDelayed clock orderDate currentStatus (Some estimatedDelivery) =
     (if currentStatus = ''delivered'' \<or> currentStatus = ''out_for_delivery'' then False
      else clock > estimatedDelivery) \<and>
   isDelayed clock orderDate currentStatus None = False \<and>
   isDelayed clock orderDate currentStatus eta = isDelayed clock orderDate' currentStatus eta"
  by (cases s) (simp_all add: isDelayed_def)

text \<open>
  C7 as stated fails: the same three arguments give \<open>False\<close> when the clock reads the
  estimate itself and \<open>True\<close> an hour later, so the method is not a function of its
  inputs.
\<close>

theorem isDelayed_counterexample:
  "isDelayed 1704099600000 ''2024-01-01T00:00:00Z'' ''preparing'' (Some 1704099600000)
     = False \<and>
   isDelayed 1704103200000 ''2024-01-01T00:00:00Z'' ''preparing'' (Some 1704099600000)
     = True"
  by (simp add: isDelayed_def)

text \<open>
  C8. \<open>getDelayMessage\<close> has three tiers by the time elapsed past the estimate: under
  one hour the mild apology, which contains no digit; from one hour up to three hours
  the apology with the whole number of hours, "1 hour" or "2 hours"; from three hours on
  the escalation message, which sends the customer to support and contains no digit.
  Two hours past the estimate the message contains "delayed by approximately 2 hours".
\<close>

theorem getDelayMessage_spec:
  "getDelayMessage now estimatedDelivery =
   (if now - estimatedDelivery < 1 * 3600000
    then ''Your order is slightly delayed. We apologize for the inconvenience.''
    else if now - estimatedDelivery < 2 * 3600000
    then ''Your order is delayed by approximately 1 hour. Our team is working to get it to you as soon as possible.''
    else if now - estimatedDelivery < 3 * 3600000
    then ''Your order is delayed by approximately 2 hours. Our team is working to get it to you as soon as possible.''
    else ''We sincerely apologize for the delay. Your order is taking longer than expected. Please contact support for more information.'') \<and>
   set ''Your order is slightly delayed. We apologize for the inconvenience.''
     \<inter> set ''0123456789'' = {} \<and>
   set ''We sincerely apologize for the delay. Your order is taking longer than expected. Please contact support for more information.''
     \<inter> set ''0123456789'' = {} \<and>
   sublist ''Please contact support''
     ''We sincerely apologize for the delay. Your order is taking longer than expected. Please contact support for more information.'' \<and>
   sublist ''delayed by approximately 2 hours''
     (getDelayMessage (estimatedDelivery + 2 * 3600000) estimatedDelivery)"
proof -
  have tiers: "getDelayMessage now estimatedDelivery =
   (if now - estimatedDelivery < 1 * 3600000
    then ''Your order is slightly delayed. We apologize for the inconvenience.''
    else if now - estimatedDelivery < 2 * 3600000
    then ''Your order is delayed by approximately 1 hour. Our team is working to get it to you as soon as possible.''
    else if now - estimatedDelivery < 3 * 3600000
    then ''Your order is delayed by approximately 2 hours. Our team is working to get it to you as soon as possible.''
    else ''We sincerely apologize for the delay. Your order is taking longer than expected. Please contact support for more information.'')"
    using getDelayMessage_tiers [of now estimatedDelivery] by simp
  have mild: "set ''Your order is slightly delayed. We apologize for the inconvenience.''
     \<inter> set ''0123456789'' = {}"
    by simp
  have escalated: "set ''We sincerely apologize for the delay. Your order is taking longer than expected. Please contact support for more information.''
     \<inter> set ''0123456789'' = {}"
    by simp
  have support: "sublist ''Please contact support''
     ''We sincerely apologize for the delay. Your order is taking longer than expected. Please contact support for more information.''"
    unfolding sublist_def
    by (rule exI [of _ "''We sincerely apologize for the delay. Your order is taking longer than expected. ''"],
        rule exI [of _ "'' for more information.''"]) simp
  have two: "sublist ''delayed by approximately 2 hours''
     (getDelayMessage (estimatedDelivery + 2 * 3600000) estimatedDelivery)"
    unfolding sublist_def
    by (rule exI [of _ "''Your order is ''"],
        rule exI [of _ "''. Our team is working to get it to you as soon as possible.''"])
       (simp add: getDelayMessage_tiers)
  from tiers mild escalated support two show ?thesis
    by (intro conjI)
qed

text \<open>
  C9, as the code has it. For a creation date that is valid, and whose instant plus nine
  hours (of 60 minutes of 60 seconds of 1000 milliseconds) is within the range of a
  \<^verbatim>\<open>Date\<close>, 8.64e15 ms on either side of the epoch, \<open>calculateEstimatedDelivery\<close>
  returns exactly that instant. Beyond the range, and for an invalid creation date, it
  returns an Invalid Date.
\<close>

theorem calculateEstimatedDelivery_spec:
  "calculateEstimatedDelivery (Some createdAt) =
     (if - 8640000000000000 \<le> createdAt + 9 * (60 * 60 * 1000) \<and>
         createdAt + 9 * (60 * 60 * 1000) \<le> 8640000000000000
      then Some (createdAt + 9 * (60 * 60 * 1000)) else None) \<and>
   calculateEstimatedDelivery None = None \<and>
   calculateEstimatedDelivery (Some 1704067200000) = Some 1704099600000"
  by (simp add: calculateEstimatedDelivery_def newDate_def)

text \<open>
  C9 as stated fails: the last instant a \<^verbatim>\<open>Date\<close> can hold is a valid creation
  date, and its estimate is an Invalid Date, not that instant plus nine hours.
\<close>

theorem calculateEstimatedDelivery_counterexample:
  "newDate 8640000000000000 = Some 8640000000000000 \<and>
   calculateEstimatedDelivery (Some 8640000000000000) = None \<and>
   calculateEstimatedDelivery (Some 8640000000000000)
     \<noteq> Some (8640000000000000 + 9 * (60 * 60 * 1000))"
  by (simp add: calculateEstimatedDelivery_def newDate_def)

subsection \<open>Stage updates\<close>

text \<open>
  C10. A stage update that goes through writes \<open>order_status\<close>, and \<open>delivered_at\<close>
  when the target stage is \<open>delivered\<close>; every other column of the row (payment state,
  settlement reference, audit trail, proof reference, estimated delivery, costs, address)
  and every other row keep their values. In particular a \<open>delivered_at\<close> that is set
  stays as it is when the order is later moved to another stage. An identifier that
  matches no row changes nothing, and an error of the store is rethrown.
\<close>

theorem updateOrderStatus_frame:
  "(reply = None \<and> tbl orderId = Some row \<longrightarrow>
      updateOrderStatus reply now orderId status tbl =
        Inr (tbl(orderId \<mapsto> row\<lparr>order_status := status,
          delivered_at := (if status = Delivered then Some now else delivered_at row)\<rparr>))) \<and>
   (reply = None \<and> tbl orderId = None \<longrightarrow>
      updateOrderStatus reply now orderId status tbl = Inr tbl) \<and>
   (reply \<noteq> None \<longrightarrow>
      updateOrderStatus reply now orderId status tbl = Inl (StoreError (the reply)))"
  by (auto simp: updateOrderStatus_row)
     (simp_all add: updateOrderStatus_def Let_def db_update_def)

text \<open>
  An order delivered at 1704080000000 with its proof attached is moved back to
  \<open>configuring\<close>: only the stage changes.
\<close>

theorem updateOrderStatus_frame_witness:
  "updateOrderStatus None 1704090000000 ''o1'' Configuring
     [''o1'' \<mapsto> example_order\<lparr>order_status := Delivered, delivered_at := Some 1704080000000,
        proof_of_delivery_url := Some ''https://cdn.example/p.jpg''\<rparr>]
   = Inr [''o1'' \<mapsto> example_order\<lparr>order_status := Configuring,
        delivered_at := Some 1704080000000,
        proof_of_delivery_url := Some ''https://cdn.example/p.jpg''\<rparr>] \<and>
   updateOrderStatus None 1704090000000 ''o2'' Configuring [''o1'' \<mapsto> example_order]
   = Inr [''o1'' \<mapsto> example_order] \<and>
   updateOrderStatus (Some ''timeout'') 1704090000000 ''o1'' Configuring
     [''o1'' \<mapsto> example_order] = Inl (StoreError ''timeout'')"
  using
    updateOrderStatus_frame [of None
      "[''o1'' \<mapsto> example_order\<lparr>order_status := Delivered,
         delivered_at := Some 1704080000000,
         proof_of_delivery_url := Some ''https://cdn.example/p.jpg''\<rparr>]" "''o1''"
      "example_order\<lparr>order_status := Delivered, delivered_at := Some 1704080000000,
         proof_of_delivery_url := Some ''https://cdn.example/p.jpg''\<rparr>"
      1704090000000 Configuring]
    updateOrderStatus_frame [of None "[''o1'' \<mapsto> example_order]" "''o2''" example_order
      1704090000000 Configuring]
    updateOrderStatus_frame [of "Some ''timeout''" "[''o1'' \<mapsto> example_order]" "''o1''"
      example_order 1704090000000 Configuring]
  by (simp add: example_order_def)

text \<open>
  C1, as the code has it. \<open>updateOrderStatus\<close> checks no transition: it never fails with
  \<open>InvalidTransition\<close>, and for an existing order it leaves the order in the target
  stage, whatever the current stage is. The one restriction is in the admin panel. It has a
  button for each of the five stages from \<open>received\<close> to \<open>delivered\<close>; a click changes
  the store exactly when no update is in flight and the button's stage index is at most
  one above the index of the stage in the panel's snapshot of the order, and then it
  writes the button's stage to the stored row. So the current, the next and the earlier
  of the five stages are selectable, and when the snapshot shows the stage of the stored
  row a click raises the stored stage index by at most one.
\<close>

theorem updateOrderStatus_unchecked:
  "tbl (order_id selectedOrder) = Some row \<Longrightarrow>
   updateOrderStatus reply now orderId target tbl0 \<noteq> Inl InvalidTransition \<and>
   (\<exists>tbl'. updateOrderStatus None now (order_id selectedOrder) target tbl = Inr tbl' \<and>
      map_option order_status (tbl' (order_id selectedOrder)) = Some target) \<and>
   clickStatusButton None now updating selectedOrder status tbl =
     Inr (if status \<in> set panel_statuses \<and> \<not> updating \<and>
             getStatusIndex (status_value status)
               \<le> getStatusIndex (status_value (order_status selectedOrder)) + 1
          then tbl(order_id selectedOrder \<mapsto> row\<lparr>order_status := status,
                 delivered_at := (if status = Delivered then Some now else delivered_at row)\<rparr>)
          else tbl) \<and>
   (\<exists>tbl' row'. clickStatusButton None now updating selectedOrder status tbl = Inr tbl' \<and>
      tbl' (order_id selectedOrder) = Some row' \<and>
      (order_status selectedOrder = order_status row \<longrightarrow>
         getStatusIndex (status_value (order_status row'))
           \<le> getStatusIndex (status_value (order_status row)) + 1))"
proof -
  assume stored: "tbl (order_id selectedOrder) = Some row"
  have never: "updateOrderStatus reply now orderId target tbl0 \<noteq> Inl InvalidTransition"
    using db_update_failure [of reply _ orderId tbl0 InvalidTransition]
    by (auto simp: updateOrderStatus_def Let_def)
  have any: "\<exists>tbl'. updateOrderStatus None now (order_id selectedOrder) target tbl = Inr tbl' \<and>
      map_option order_status (tbl' (order_id selectedOrder)) = Some target"
    using stored by (simp add: updateOrderStatus_row)
  have gate: "statusButtonDisabled updating (status_value (order_status selectedOrder))
        (status_value status) =
      (updating \<or> getStatusIndex (status_value (order_status selectedOrder)) + 1
         < getStatusIndex (status_value status))"
    by (cases "order_status selectedOrder"; cases status)
       (simp_all add: statusButtonDisabled_def Let_def getStatusIndex_status_value
          del: status_value.simps,
        simp_all)
  have click: "clickStatusButton None now updating selectedOrder status tbl =
     Inr (if status \<in> set panel_statuses \<and> \<not> updating \<and>
             getStatusIndex (status_value status)
               \<le> getStatusIndex (status_value (order_status selectedOrder)) + 1
          then tbl(order_id selectedOrder \<mapsto> row\<lparr>order_status := status,
                 delivered_at := (if status = Delivered then Some now else delivered_at row)\<rparr>)
          else tbl)"
    using stored by (auto simp: clickStatusButton_def gate updateOrderStatus_row)
  have rise: "\<exists>tbl' row'. clickStatusButton None now updating selectedOrder status tbl = Inr tbl' \<and>
      tbl' (order_id selectedOrder) = Some row' \<and>
      (order_status selectedOrder = order_status row \<longrightarrow>
         getStatusIndex (status_value (order_status row'))
           \<le> getStatusIndex (status_value (order_status row)) + 1)"
    using stored by (auto simp: click)
  from never any click rise show ?thesis
    by (intro conjI)
qed

text \<open>
  The panel shows the example order in \<open>received\<close>: the buttons of \<open>preparing\<close> and of
  \<open>received\<close> write their stage, the button of \<open>delivered\<close> does nothing, and there is
  no button for \<open>pending\<close>.
\<close>

theorem updateOrderStatus_unchecked_witness:
  "[''o1'' \<mapsto> example_order] (order_id example_order) = Some example_order \<and>
   updateOrderStatus None 1704070000000 ''o1'' Preparing [''o1'' \<mapsto> example_order]
     \<noteq> Inl InvalidTransition \<and>
   clickStatusButton None 1704070000000 False example_order Preparing
       [''o1'' \<mapsto> example_order] =
     Inr [''o1'' \<mapsto> example_order\<lparr>order_status := Preparing\<rparr>] \<and>
   clickStatusButton None 1704070000000 False example_order Delivered
       [''o1'' \<mapsto> example_order] = Inr [''o1'' \<mapsto> example_order] \<and>
   clickStatusButton None 1704070000000 False example_order Pending
       [''o1'' \<mapsto> example_order] = Inr [''o1'' \<mapsto> example_order]"
proof -
  have stored: "[''o1'' \<mapsto> example_order] (order_id example_order) = Some example_order"
    by (simp add: example_order_def)
  have stage: "order_status example_order = Received" and ident: "order_id example_order = ''o1''"
    by (simp_all add: example_order_def)
  note fact = updateOrderStatus_unchecked [where tbl = "[''o1'' \<mapsto> example_order]"
      and selectedOrder = example_order and row = example_order and reply = None
      and now = 1704070000000 and orderId = "''o1''" and target = Preparing
      and tbl0 = "[''o1'' \<mapsto> example_order]" and updating = False, OF stored]
  from fact [where status = Preparing] fact [where status = Delivered]
    fact [where status = Pending] stored
  show ?thesis
    by (simp add: stage ident getStatusIndex_def statuses_def panel_statuses_def)
qed

text \<open>
  C1 as stated fails: from \<open>received\<close> (index 1) the update to \<open>delivered\<close> (index 5)
  goes through; and on a delivered order the panel's button of \<open>received\<close> is enabled
  and its click moves the order back, so the stage index decreases.
\<close>

theorem updateOrderStatus_unchecked_counterexample:
  "getStatusIndex ''delivered'' > getStatusIndex (status_value (order_status example_order)) + 1 \<and>
   updateOrderStatus None 1704070000000 ''o1'' Delivered [''o1'' \<mapsto> example_order] =
     Inr [''o1'' \<mapsto> example_order\<lparr>order_status := Delivered,
            delivered_at := Some 1704070000000\<rparr>] \<and>
   getStatusIndex ''received'' < getStatusIndex ''delivered'' \<and>
   clickStatusButton None 1704080000000 False
     (example_order\<lparr>order_status := Delivered, delivered_at := Some 1704070000000\<rparr>)
     Received
     [''o1'' \<mapsto> example_order\<lparr>order_status := Delivered,
        delivered_at := Some 1704070000000\<rparr>] =
     Inr [''o1'' \<mapsto> example_order\<lparr>order_status := Received,
            delivered_at := Some 1704070000000\<rparr>]"
  by (simp add: updateOrderStatus_row clickStatusButton_def panel_statuses_def
      example_order_def getStatusIndex_def statuses_def statusButtonDisabled_def Let_def)

subsection \<open>Audit trail and delivered timestamp\<close>

text \<open>
  C2. The claim is that an order entering a stage has the instant recorded under that
  stage's key. At the stage update of the example order from \<open>received\<close> to
  \<open>preparing\<close> the service records nothing: the audit column of the row is still the
  text \<open>createOrder\<close> wrote, and the panels, which read the column by stage name, find
  no \<open>preparing\<close> entry in it (nor the \<open>received\<close> one).
\<close>

theorem updateOrderStatus_records_no_entry:
  "createOrder None (store_new_row ''o1'' 1704067200000) 1704067200000 ''u1'' False
     example_address None Map.empty = Inr (example_order, [''o1'' \<mapsto> example_order]) \<and>
   updateOrderStatus None 1704070000000 ''o1'' Preparing [''o1'' \<mapsto> example_order] =
     Inr [''o1'' \<mapsto> example_order\<lparr>order_status := Preparing\<rparr>] \<and>
   status_timestamps (example_order\<lparr>order_status := Preparing\<rparr>) =
     Some (JsonText [(''received'', 1704067200000)]) \<and>
   readTimestamp (status_timestamps (example_order\<lparr>order_status := Preparing\<rparr>)) Preparing
     = None \<and>
   readTimestamp (status_timestamps (example_order\<lparr>order_status := Preparing\<rparr>)) Received
     = None"
  by (simp add: createOrder_example updateOrderStatus_row) (simp add: example_order_def)

text \<open>
  C3, as the code has it. Take an order made by \<open>createOrder\<close> through any sequence of
  calls of the service, and then through any further sequence. In the state between
  them, \<open>delivered_at\<close> is set when the fulfillment state is \<open>delivered\<close>; a
  \<open>delivered_at\<close> that is set there is still set at the end; and an update to
  \<open>delivered\<close> made there writes the clock reading over whatever the column holds.
\<close>

theorem delivered_at_invariant:
  "createOrder None fresh now userId includesTablet deliveryAddress restaurantId tbl0 =
     Inr (row, tbl) \<Longrightarrow>
   perform_all calls tbl = Inr tbl1 \<Longrightarrow>
   perform_all calls' tbl1 = Inr tbl2 \<Longrightarrow>
   \<exists>row1 row2. tbl1 (order_id row) = Some row1 \<and> tbl2 (order_id row) = Some row2 \<and>
     (order_status row1 = Delivered \<longrightarrow> delivered_at row1 \<noteq> None) \<and>
     (delivered_at row1 \<noteq> None \<longrightarrow> delivered_at row2 \<noteq> None) \<and>
     updateOrderStatus None clock (order_id row) Delivered tbl1 =
       Inr (tbl1(order_id row \<mapsto> row1\<lparr>order_status := Delivered,
              delivered_at := Some clock\<rparr>))"
proof -
  assume created: "createOrder None fresh now userId includesTablet deliveryAddress
      restaurantId tbl0 = Inr (row, tbl)"
    and ran: "perform_all calls tbl = Inr tbl1"
    and ran': "perform_all calls' tbl1 = Inr tbl2"
  from createOrder_row [OF created] have stored: "tbl (order_id row) = Some row"
    and stage: "order_status row = Received"
    by simp_all
  from perform_all_steps [OF ran stored] stage obtain row1
    where r1: "tbl1 (order_id row) = Some row1"
      and i1: "order_status row1 = Delivered \<longrightarrow> delivered_at row1 \<noteq> None"
    by auto
  from perform_all_steps [OF ran' r1] obtain row2
    where r2: "tbl2 (order_id row) = Some row2"
      and k2: "delivered_at row1 \<noteq> None \<longrightarrow> delivered_at row2 \<noteq> None"
    by auto
  from r1 have "updateOrderStatus None clock (order_id row) Delivered tbl1 =
       Inr (tbl1(order_id row \<mapsto> row1\<lparr>order_status := Delivered,
              delivered_at := Some clock\<rparr>))"
    by (simp add: updateOrderStatus_row)
  with r1 r2 i1 k2 show ?thesis
    by blast
qed

text \<open>
  The example order is delivered at 1704070000000 and later moved to \<open>configuring\<close>:
  the timestamp written by the update is still there.
\<close>

theorem delivered_at_invariant_witness:
  "createOrder None (store_new_row ''o1'' 1704067200000) 1704067200000 ''u1'' False
     example_address None Map.empty = Inr (example_order, [''o1'' \<mapsto> example_order]) \<and>
   perform_all [CallUpdateOrderStatus None 1704070000000 ''o1'' Delivered]
     [''o1'' \<mapsto> example_order] =
     Inr [''o1'' \<mapsto> example_order\<lparr>order_status := Delivered,
            delivered_at := Some 1704070000000\<rparr>] \<and>
   perform_all [CallUpdateOrderStatus None 1704080000000 ''o1'' Configuring]
     [''o1'' \<mapsto> example_order\<lparr>order_status := Delivered,
        delivered_at := Some 1704070000000\<rparr>] =
     Inr [''o1'' \<mapsto> example_order\<lparr>order_status := Configuring,
            delivered_at := Some 1704070000000\<rparr>] \<and>
   (\<exists>row1 row2.
      [''o1'' \<mapsto> example_order\<lparr>order_status := Delivered,
         delivered_at := Some 1704070000000\<rparr>] ''o1'' = Some row1 \<and>
      [''o1'' \<mapsto> example_order\<lparr>order_status := Configuring,
         delivered_at := Some 1704070000000\<rparr>] ''o1'' = Some row2 \<and>
      order_status row1 = Delivered \<and> delivered_at row1 \<noteq> None \<and>
      order_status row2 = Configuring \<and> delivered_at row2 \<noteq> None)"
proof -
  have created: "createOrder None (store_new_row ''o1'' 1704067200000) 1704067200000 ''u1''
      False example_address None Map.empty = Inr (example_order, [''o1'' \<mapsto> example_order])"
    by (rule createOrder_example)
  have ran: "perform_all [CallUpdateOrderStatus None 1704070000000 ''o1'' Delivered]
     [''o1'' \<mapsto> example_order] =
     Inr [''o1'' \<mapsto> example_order\<lparr>order_status := Delivered,
            delivered_at := Some 1704070000000\<rparr>]"
    by (simp add: updateOrderStatus_row example_order_def)
  have ran': "perform_all [CallUpdateOrderStatus None 1704080000000 ''o1'' Configuring]
     [''o1'' \<mapsto> example_order\<lparr>order_status := Delivered,
        delivered_at := Some 1704070000000\<rparr>] =
     Inr [''o1'' \<mapsto> example_order\<lparr>order_status := Configuring,
            delivered_at := Some 1704070000000\<rparr>]"
    by (simp add: updateOrderStatus_row example_order_def)
  from delivered_at_invariant [OF created ran ran', of 0] created ran ran' show ?thesis
    by (simp add: example_order_def)
qed

text \<open>
  C3 as stated fails: a second update to \<open>delivered\<close> overwrites the timestamp of the
  first, and after a later update to \<open>configuring\<close> the timestamp is still set.
\<close>

theorem delivered_at_counterexample:
  "perform_all [CallUpdateOrderStatus None 1704070000000 ''o1'' Delivered]
     [''o1'' \<mapsto> example_order] =
     Inr [''o1'' \<mapsto> example_order\<lparr>order_status := Delivered,
            delivered_at := Some 1704070000000\<rparr>] \<and>
   perform_all [CallUpdateOrderStatus None 1704070000000 ''o1'' Delivered,
       CallUpdateOrderStatus None 1704080000000 ''o1'' Delivered,
       CallUpdateOrderStatus None 1704090000000 ''o1'' Configuring]
     [''o1'' \<mapsto> example_order] =
     Inr [''o1'' \<mapsto> example_order\<lparr>order_status := Configuring,
            delivered_at := Some 1704080000000\<rparr>] \<and>
   order_status (example_order\<lparr>order_status := Configuring,
       delivered_at := Some 1704080000000\<rparr>) \<noteq> Delivered \<and>
   delivered_at (example_order\<lparr>order_status := Configuring,
       delivered_at := Some 1704080000000\<rparr>) = Some 1704080000000"
  by (simp add: updateOrderStatus_row example_order_def)

subsection \<open>Settlement and proof of delivery\<close>

text \<open>
  C4, as the code has it. \<open>updateOrderPaymentStatus\<close> never fails with
  \<open>AlreadySettled\<close>. For an existing order it sets the payment state and the
  settlement reference; when the outcome is \<open>completed\<close> it also sets the fulfillment
  state to \<open>received\<close>, and otherwise leaves it. It writes nothing else: the audit trail
  keeps its entries.
\<close>

theorem updateOrderPaymentStatus_unchecked:
  "updateOrderPaymentStatus reply orderId paymentIntentId outcome tbl \<noteq> Inl AlreadySettled \<and>
   (tbl orderId = Some row \<longrightarrow>
      updateOrderPaymentStatus None orderId paymentIntentId outcome tbl =
        Inr (tbl(orderId \<mapsto> row\<lparr>
          order_status := (if outcome = OutcomeCompleted then Received else order_status row),
          payment_status := outcome_status outcome,
          stripe_payment_intent_id := Some paymentIntentId\<rparr>)))"
proof (intro conjI impI)
  show "updateOrderPaymentStatus reply orderId paymentIntentId outcome tbl \<noteq> Inl AlreadySettled"
    using db_update_failure [of reply _ orderId tbl AlreadySettled]
    by (auto simp: updateOrderPaymentStatus_def Let_def)
next
  assume "tbl orderId = Some row"
  then show "updateOrderPaymentStatus None orderId paymentIntentId outcome tbl =
        Inr (tbl(orderId \<mapsto> row\<lparr>
          order_status := (if outcome = OutcomeCompleted then Received else order_status row),
          payment_status := outcome_status outcome,
          stripe_payment_intent_id := Some paymentIntentId\<rparr>))"
    by (rule updateOrderPaymentStatus_row)
qed

theorem updateOrderPaymentStatus_unchecked_witness:
  "[''o1'' \<mapsto> example_order\<lparr>order_status := Pending, payment_status := PaymentPending\<rparr>]
     ''o1'' = Some (example_order\<lparr>order_status := Pending, payment_status := PaymentPending\<rparr>) \<and>
   updateOrderPaymentStatus None ''o1'' ''pi_123'' OutcomeCompleted
     [''o1'' \<mapsto> example_order\<lparr>order_status := Pending, payment_status := PaymentPending\<rparr>] =
     Inr [''o1'' \<mapsto> example_order\<lparr>stripe_payment_intent_id := Some ''pi_123''\<rparr>]"
  using updateOrderPaymentStatus_unchecked [where reply = None and orderId = "''o1''"
      and paymentIntentId = "''pi_123''" and outcome = OutcomeCompleted
      and tbl = "[''o1'' \<mapsto> example_order\<lparr>order_status := Pending,
        payment_status := PaymentPending\<rparr>]"
      and row = "example_order\<lparr>order_status := Pending, payment_status := PaymentPending\<rparr>"]
  by (simp add: example_order_def)

text \<open>
  C4 as stated fails: an order whose payment is already \<open>completed\<close> is settled again
  (here as \<open>failed\<close>) without a failure; and a pending order with an empty audit trail
  is moved to \<open>received\<close> while its trail stays empty.
\<close>

theorem updateOrderPaymentStatus_counterexample:
  "payment_status example_order = PaymentCompleted \<and>
   updateOrderPaymentStatus None ''o1'' ''pi_123'' OutcomeFailed [''o1'' \<mapsto> example_order] =
     Inr [''o1'' \<mapsto> example_order\<lparr>payment_status := PaymentFailed,
            stripe_payment_intent_id := Some ''pi_123''\<rparr>] \<and>
   updateOrderPaymentStatus None ''o1'' ''pi_123'' OutcomeCompleted
     [''o1'' \<mapsto> example_order\<lparr>order_status := Pending, payment_status := PaymentPending,
        status_timestamps := None\<rparr>] =
     Inr [''o1'' \<mapsto> example_order\<lparr>order_status := Received,
            payment_status := PaymentCompleted,
            stripe_payment_intent_id := Some ''pi_123'', status_timestamps := None\<rparr>]"
  by (simp add: updateOrderPaymentStatus_row example_order_def)

text \<open>
  C5, as the code has it. \<open>updateProofOfDelivery\<close> never fails with \<open>InvalidState\<close>:
  for an existing order in any fulfillment state it sets the proof reference and nothing
  else. The restriction to delivered orders is in the admin panel, which renders the
  proof section only for an order whose state is \<open>delivered\<close>.
\<close>

theorem updateProofOfDelivery_unchecked:
  "updateProofOfDelivery reply orderId proofUrl tbl \<noteq> Inl InvalidState \<and>
   (tbl orderId = Some row \<longrightarrow>
      updateProofOfDelivery None orderId proofUrl tbl =
        Inr (tbl(orderId \<mapsto> row\<lparr>proof_of_delivery_url := Some proofUrl\<rparr>))) \<and>
   proofSectionShown row = (status_value (order_status row) = ''delivered'')"
proof (intro conjI impI)
  show "updateProofOfDelivery reply orderId proofUrl tbl \<noteq> Inl InvalidState"
    using db_update_failure [of reply _ orderId tbl InvalidState]
    by (auto simp: updateProofOfDelivery_def)
next
  assume "tbl orderId = Some row"
  then show "updateProofOfDelivery None orderId proofUrl tbl =
        Inr (tbl(orderId \<mapsto> row\<lparr>proof_of_delivery_url := Some proofUrl\<rparr>))"
    by (rule updateProofOfDelivery_row)
next
  show "proofSectionShown row = (status_value (order_status row) = ''delivered'')"
    using status_value_inj [of "order_status row" Delivered]
    by (simp add: proofSectionShown_def)
qed

theorem updateProofOfDelivery_unchecked_witness:
  "[''o1'' \<mapsto> example_order] ''o1'' = Some example_order \<and>
   updateProofOfDelivery None ''o1'' ''https://cdn.example/p.jpg'' [''o1'' \<mapsto> example_order] =
     Inr [''o1'' \<mapsto> example_order\<lparr>proof_of_delivery_url :=
            Some ''https://cdn.example/p.jpg''\<rparr>] \<and>
   \<not> proofSectionShown example_order"
  using updateProofOfDelivery_unchecked [where reply = None and orderId = "''o1''"
      and proofUrl = "''https://cdn.example/p.jpg''" and tbl = "[''o1'' \<mapsto> example_order]"
      and row = example_order]
  by (simp add: example_order_def)

text \<open>
  C5 as stated fails: the proof is attached to an order that is \<open>out_for_delivery\<close>.
\<close>

theorem updateProofOfDelivery_counterexample:
  "order_status (example_order\<lparr>order_status := OutForDelivery\<rparr>) = OutForDelivery \<and>
   updateProofOfDelivery None ''o1'' ''https://cdn.example/p.jpg''
     [''o1'' \<mapsto> example_order\<lparr>order_status := OutForDelivery\<rparr>] =
     Inr [''o1'' \<mapsto> example_order\<lparr>order_status := OutForDelivery,
            proof_of_delivery_url := Some ''https://cdn.example/p.jpg''\<rparr>]"
  by (simp add: updateProofOfDelivery_row example_order_def)

subsection \<open>Order creation\<close>




end
